theory Spec2Isabelle
  imports Main
begin

section \<open>Strings and Python values\<close>

text \<open>
  A Python \<open>str\<close> is modelled as a \<open>string\<close> whose characters are the code points
  below 256. \<open>lower\<close> and \<open>upper\<close> are \<open>str.lower\<close> and \<open>str.upper\<close> on that range:
  the ASCII letters and the Latin-1 letters with a partner in the range change case,
  every other character is kept (the three characters whose upper case leaves the range,
  181, 223 and 255, never produce an ASCII letter, and the source only compares upper-cased
  text with ASCII literals).
\<close>

definition lower_chr :: "char \<Rightarrow> char" where
  "lower_chr c =
     (let n = (of_char c :: nat)
      in if (65 \<le> n \<and> n \<le> 90) \<or> (192 \<le> n \<and> n \<le> 222 \<and> n \<noteq> 215)
         then char_of (n + 32) else c)"

definition upper_chr :: "char \<Rightarrow> char" where
  "upper_chr c =
     (let n = (of_char c :: nat)
      in if (97 \<le> n \<and> n \<le> 122) \<or> (224 \<le> n \<and> n \<le> 254 \<and> n \<noteq> 247)
         then char_of (n - 32) else c)"

definition lower :: "string \<Rightarrow> string" where
  "lower s = map lower_chr s"

definition upper :: "string \<Rightarrow> string" where
  "upper s = map upper_chr s"

text \<open>The characters \<open>str.strip()\<close> and \<open>str.split()\<close> treat as whitespace.\<close>

definition isspace :: "char \<Rightarrow> bool" where
  "isspace c =
     (let n = (of_char c :: nat)
      in (9 \<le> n \<and> n \<le> 13) \<or> (28 \<le> n \<and> n \<le> 32) \<or> n = 133 \<or> n = 160)"

definition strip :: "string \<Rightarrow> string" where
  "strip s = rev (dropWhile isspace (rev (dropWhile isspace s)))"

text \<open>\<open>s.split()\<close>: the maximal runs of characters that are not whitespace.\<close>

fun split_acc :: "string \<Rightarrow> string \<Rightarrow> string list" where
  "split_acc cur [] = (if cur = [] then [] else [rev cur])"
| "split_acc cur (c # cs) =
     (if isspace c then (if cur = [] then split_acc [] cs else rev cur # split_acc [] cs)
      else split_acc (c # cur) cs)"

definition split :: "string \<Rightarrow> string list" where
  "split s = split_acc [] s"

text \<open>\<open>s.replace(' ', '_')\<close>.\<close>

definition replace_space :: "string \<Rightarrow> string" where
  "replace_space s = map (\<lambda>c. if c = CHR '' '' then CHR ''_'' else c) s"

text \<open>
  The values the assignment attributes of a person take in the source: \<open>None\<close> from the
  constructors, a room name from \<open>Dojo._allocate_office\<close> and
  \<open>Dojo._allocate_living_space\<close>, \<open>False\<close> and \<open>True\<close> from
  \<open>DojoApp.reallocate_person\<close>. \<open>truthy\<close> is Python's truth value.
\<close>

datatype pyval = PNone | PStr string | PBool bool

fun truthy :: "pyval \<Rightarrow> bool" where
  "truthy PNone = False"
| "truthy (PStr s) = (s \<noteq> [])"
| "truthy (PBool b) = b"

datatype py_error = IndexError | NameError | ValueError | SQLAlchemyError

section \<open>Domain model\<close>

subsection \<open>Rooms (models/room.py, office.py, living\_space.py)\<close>

record room =
  name :: string
  room_type :: string
  capacity :: int
  occupants :: "string list"

definition Office :: "string \<Rightarrow> room" where
  "Office nm = \<lparr>name = nm, room_type = ''office'', capacity = 6, occupants = []\<rparr>"

definition LivingSpace :: "string \<Rightarrow> room" where
  "LivingSpace nm = \<lparr>name = nm, room_type = ''living_space'', capacity = 4, occupants = []\<rparr>"

definition is_full :: "room \<Rightarrow> bool" where
  "is_full r = (int (length (occupants r)) \<ge> capacity r)"

definition available_space :: "room \<Rightarrow> int" where
  "available_space r = capacity r - int (length (occupants r))"

text \<open>
  \<open>Room.add_occupant\<close>. The argument is \<open>None\<close> or a string; both \<open>None\<close> and the
  empty string are falsy. The result is the returned flag and the room afterwards.
\<close>

definition add_occupant :: "room \<Rightarrow> string option \<Rightarrow> bool \<times> room" where
  "add_occupant r person_id =
     (case person_id of
        None \<Rightarrow> (False, r)
      | Some pid \<Rightarrow>
          if pid = [] then (False, r)
          else if pid \<in> set (occupants r) then (True, r)
          else if is_full r then (False, r)
          else (True, r\<lparr>occupants := occupants r @ [pid]\<rparr>))"

text \<open>\<open>Room.remove_occupant\<close>; \<open>list.remove\<close> deletes the first occurrence.\<close>

definition remove_occupant :: "room \<Rightarrow> string option \<Rightarrow> bool \<times> room" where
  "remove_occupant r person_id =
     (case person_id of
        None \<Rightarrow> (False, r)
      | Some pid \<Rightarrow>
          if pid = [] \<or> occupants r = [] then (False, r)
          else if pid \<in> set (occupants r) then (True, r\<lparr>occupants := remove1 pid (occupants r)\<rparr>)
          else (False, r))"

subsection \<open>People (models/person.py, fellow.py, staff.py)\<close>

text \<open>
  A \<open>Staff\<close> object has neither a \<open>wants_accommodation\<close> nor a
  \<open>living_space_allocated\<close> attribute: an absent attribute is \<open>None\<close> of the option
  type. \<open>person_id\<close> is the first eight characters of a fresh UUID, an input of the model.
\<close>

record person =
  pname :: string
  person_id :: string
  person_type :: string
  wants_accommodation :: "bool option"
  office_allocated :: pyval
  living_space_allocated :: "pyval option"

definition Fellow :: "string \<Rightarrow> string \<Rightarrow> pyval \<Rightarrow> person" where
  "Fellow uuid nm wants =
     \<lparr>pname = nm, person_id = uuid, person_type = ''FELLOW'',
      wants_accommodation =
        Some (case wants of PStr s \<Rightarrow> upper s = ''Y'' | v \<Rightarrow> truthy v),
      office_allocated = PNone, living_space_allocated = Some PNone\<rparr>"

definition Staff :: "string \<Rightarrow> string \<Rightarrow> person" where
  "Staff uuid nm =
     \<lparr>pname = nm, person_id = uuid, person_type = ''STAFF'',
      wants_accommodation = None,
      office_allocated = PNone, living_space_allocated = None\<rparr>"

subsection \<open>The Dojo (models/dojo.py)\<close>

text \<open>
  \<open>Dojo.people\<close> holds the person objects; \<open>Dojo.staff\<close> and \<open>Dojo.fellows\<close> hold
  references to objects of \<open>people\<close>, modelled as indices into it.
\<close>

record dojo =
  offices :: "room list"
  living_spaces :: "room list"
  people :: "person list"
  staff :: "nat list"
  fellows :: "nat list"

definition Dojo :: dojo where
  "Dojo = \<lparr>offices = [], living_spaces = [], people = [], staff = [], fellows = []\<rparr>"

definition add_person_to_lists :: "dojo \<Rightarrow> person \<Rightarrow> dojo" where
  "add_person_to_lists d p =
     (let i = length (people d); d1 = d\<lparr>people := people d @ [p]\<rparr>
      in if person_type p = ''FELLOW'' then d1\<lparr>fellows := fellows d @ [i]\<rparr>
         else d1\<lparr>staff := staff d @ [i]\<rparr>)"

text \<open>
  \<open>Dojo.create_room\<close>. \<open>room_names\<close> is one string or a list of strings; the loop
  checks each name against the rooms registered so far, those of this call included.
\<close>

datatype names_arg = OneName string | NameList "string list"

fun create_room_loop :: "string \<Rightarrow> string list \<Rightarrow> bool \<Rightarrow> dojo \<Rightarrow> bool \<times> dojo" where
  "create_room_loop rt [] rooms_created d = (rooms_created, d)"
| "create_room_loop rt (nm # rest) rooms_created d =
     (if nm = [] \<or> strip nm = [] then create_room_loop rt rest rooms_created d
      else if list_ex (\<lambda>r. lower (name r) = lower nm) (offices d @ living_spaces d)
        then create_room_loop rt rest rooms_created d
      else if rt = ''office''
        then create_room_loop rt rest True (d\<lparr>offices := offices d @ [Office nm]\<rparr>)
      else create_room_loop rt rest True (d\<lparr>living_spaces := living_spaces d @ [LivingSpace nm]\<rparr>))"

definition create_room :: "dojo \<Rightarrow> string \<Rightarrow> names_arg \<Rightarrow> bool \<times> dojo" where
  "create_room d rt room_names =
     (if rt \<noteq> ''office'' \<and> rt \<noteq> ''living_space'' then (False, d)
      else create_room_loop rt (case room_names of OneName s \<Rightarrow> [s] | NameList l \<Rightarrow> l) False d)"

text \<open>
  \<open>Dojo._allocate_office\<close> and \<open>Dojo._allocate_living_space\<close>. The person is the object
  at index \<open>i\<close> of \<open>people\<close>. \<open>random.choice\<close> picks any element of the list of rooms
  that are not full: the pick is the input \<open>k\<close>, taken modulo the length of that list.
  The result is the name of the chosen room, if there is one, and the dojo afterwards.
\<close>

definition available :: "room list \<Rightarrow> nat list" where
  "available rs = filter (\<lambda>j. \<not> is_full (rs ! j)) [0..<length rs]"

definition allocate_office :: "dojo \<Rightarrow> nat \<Rightarrow> nat \<Rightarrow> string option \<times> dojo" where
  "allocate_office d i k =
     (let av = available (offices d)
      in if av = [] then (None, d)
         else
           let j = av ! (k mod length av);
               p = people d ! i;
               office = snd (add_occupant (offices d ! j) (Some (person_id p)))
           in (Some (name office),
               d\<lparr>offices := (offices d)[j := office],
                 people := (people d)[i := p\<lparr>office_allocated := PStr (name office)\<rparr>]\<rparr>))"

definition allocate_living_space :: "dojo \<Rightarrow> nat \<Rightarrow> nat \<Rightarrow> string option \<times> dojo" where
  "allocate_living_space d i k =
     (let av = available (living_spaces d)
      in if av = [] then (None, d)
         else
           let j = av ! (k mod length av);
               p = people d ! i;
               living_space = snd (add_occupant (living_spaces d ! j) (Some (person_id p)))
           in (Some (name living_space),
               d\<lparr>living_spaces := (living_spaces d)[j := living_space],
                 people := (people d)[i := p\<lparr>living_space_allocated := Some (PStr (name living_space))\<rparr>]\<rparr>))"

text \<open>
  \<open>Dojo.add_person\<close>. \<open>uuid\<close> is the id the constructor draws and \<open>k1\<close>, \<open>k2\<close> are the
  two random picks. The result is what the call does (\<open>Inr\<close> the returned flag, \<open>Inl\<close>
  the exception that leaves the call) and the dojo at that moment.

  \<open>name.split()[0]\<close> raises IndexError when the name has no word. The handler of the
  enclosing \<open>try\<close> prints to \<open>sys.stderr\<close>, but models/dojo.py does not import \<open>sys\<close>: the
  handler itself raises NameError, which leaves \<open>add_person\<close>. The person has been
  registered and given an office by then.
\<close>

definition add_person ::
  "dojo \<Rightarrow> string \<Rightarrow> nat \<Rightarrow> nat \<Rightarrow> string \<Rightarrow> string \<Rightarrow> pyval \<Rightarrow> (py_error + bool) \<times> dojo" where
  "add_person d uuid k1 k2 nm ptype wants =
     (let pt = upper ptype
      in if pt \<noteq> ''FELLOW'' \<and> pt \<noteq> ''STAFF'' then (Inr False, d)
         else if pt = ''STAFF'' \<and> (case wants of PStr s \<Rightarrow> upper s = ''Y'' | _ \<Rightarrow> False)
           then (Inr False, d)
         else
           let p = (if pt = ''FELLOW'' then Fellow uuid nm wants else Staff uuid nm);
               i = length (people d);
               d1 = add_person_to_lists d p;
               d2 = snd (allocate_office d1 i k1)
           in if split nm = [] then (Inl NameError, d2)
              else if pt = ''FELLOW'' \<and> wants_accommodation p = Some True
                then (Inr True, snd (allocate_living_space d2 i k2))
              else (Inr True, d2))"

subsection \<open>The application (cli.py)\<close>

text \<open>
  \<open>DojoApp\<close> owns one dojo. \<open>DojoApp.create_room\<close> and \<open>DojoApp.add_person\<close> validate
  their arguments and delegate to the dojo.
\<close>

definition app_create_room :: "dojo \<Rightarrow> string \<Rightarrow> string list \<Rightarrow> bool \<times> dojo" where
  "app_create_room d rt room_names =
     (if rt \<noteq> ''office'' \<and> rt \<noteq> ''living_space'' then (False, d)
      else create_room d rt (NameList room_names))"

definition app_add_person ::
  "dojo \<Rightarrow> string \<Rightarrow> nat \<Rightarrow> nat \<Rightarrow> string \<Rightarrow> string \<Rightarrow> string \<Rightarrow> (py_error + bool) \<times> dojo" where
  "app_add_person d uuid k1 k2 nm ptype wants =
     (let pt = upper ptype; w = upper wants
      in if pt \<noteq> ''FELLOW'' \<and> pt \<noteq> ''STAFF'' then (Inr False, d)
         else if w \<noteq> ''Y'' \<and> w \<noteq> ''N'' then (Inr False, d)
         else if pt = ''STAFF'' \<and> w = ''Y'' then (Inr False, d)
         else add_person d uuid k1 k2 nm pt (PStr w))"

text \<open>The index of the first element that satisfies \<open>P\<close>: the \<open>for ... break\<close> searches.\<close>

fun find_idx :: "('a \<Rightarrow> bool) \<Rightarrow> 'a list \<Rightarrow> nat option" where
  "find_idx P [] = None"
| "find_idx P (x # xs) = (if P x then Some 0 else map_option Suc (find_idx P xs))"

text \<open>
  The target of a reallocation: the first office with that name ignoring case, else the
  first living space with that name, which is a target only for a fellow who wants
  accommodation. The result is the kind of the room and its index in the list of its kind;
  \<open>None\<close> covers both messages of the source (no such room, person not eligible), after
  each of which \<open>reallocate_person\<close> returns False.
\<close>

definition find_new_room :: "dojo \<Rightarrow> person \<Rightarrow> string \<Rightarrow> (string \<times> nat) option" where
  "find_new_room d p new_room_name =
     (case find_idx (\<lambda>r. lower (name r) = lower new_room_name) (offices d) of
        Some j \<Rightarrow> Some (''office'', j)
      | None \<Rightarrow>
          (case find_idx (\<lambda>r. lower (name r) = lower new_room_name) (living_spaces d) of
             Some j \<Rightarrow>
               if person_type p = ''FELLOW'' \<and> wants_accommodation p = Some True
               then Some (''living_space'', j) else None
           | None \<Rightarrow> None))"

text \<open>
  The rooms of one kind: \<open>rooms_to_check\<close> of \<open>DojoApp.reallocate_person\<close>.
\<close>

definition rooms_to_check :: "dojo \<Rightarrow> string \<Rightarrow> room list" where
  "rooms_to_check d new_room_type =
     (if new_room_type = ''office'' then offices d else living_spaces d)"

text \<open>
  The \<open>try\<close> block of \<open>DojoApp.reallocate_person\<close>: \<open>i\<close> is the index of the person,
  \<open>j\<close> the index of the new room among the rooms of its kind, \<open>current_room\<close> the index
  of the current room among them, if there is one. None of its statements can raise: the
  id removed from the current room is one of its occupants.
\<close>

definition perform_reallocation ::
  "dojo \<Rightarrow> nat \<Rightarrow> string \<Rightarrow> string \<Rightarrow> nat \<Rightarrow> nat option \<Rightarrow> dojo" where
  "perform_reallocation d i pid new_room_type j current_room =
     (let p = people d ! i;
          rooms = rooms_to_check d new_room_type;
          (rooms1, p1) =
            (case current_room of
               None \<Rightarrow> (rooms, p)
             | Some c \<Rightarrow>
                 let cr = rooms ! c
                 in (rooms[c := cr\<lparr>occupants := remove1 pid (occupants cr)\<rparr>],
                     if room_type cr = ''office'' then p\<lparr>office_allocated := PBool False\<rparr>
                     else if room_type cr = ''living_space''
                       then p\<lparr>living_space_allocated := Some (PBool False)\<rparr>
                     else p));
          nr = rooms1 ! j;
          rooms2 = rooms1[j := nr\<lparr>occupants := occupants nr @ [pid]\<rparr>];
          p2 = (if room_type nr = ''office'' then p1\<lparr>office_allocated := PBool True\<rparr>
                else p1\<lparr>living_space_allocated := Some (PBool True)\<rparr>);
          d1 = (if new_room_type = ''office'' then d\<lparr>offices := rooms2\<rparr>
                else d\<lparr>living_spaces := rooms2\<rparr>)
      in d1\<lparr>people := (people d)[i := p2]\<rparr>)"

text \<open>\<open>DojoApp.reallocate_person\<close>: the returned flag and the dojo afterwards.\<close>

definition reallocate_person :: "dojo \<Rightarrow> string \<Rightarrow> string \<Rightarrow> bool \<times> dojo" where
  "reallocate_person d pid new_room_name =
     (case find_idx (\<lambda>p. person_id p = pid) (people d) of
        None \<Rightarrow> (False, d)
      | Some i \<Rightarrow>
          (case find_new_room d (people d ! i) new_room_name of
             None \<Rightarrow> (False, d)
           | Some (new_room_type, j) \<Rightarrow>
               let rooms = rooms_to_check d new_room_type;
                   new_room = rooms ! j
               in if int (length (occupants new_room)) \<ge> capacity new_room then (False, d)
                  else
                    let current_room = find_idx (\<lambda>r. pid \<in> set (occupants r)) rooms
                    in if (case current_room of
                             None \<Rightarrow> False
                           | Some c \<Rightarrow> lower (name (rooms ! c)) = lower (name new_room))
                       then (False, d)
                       else (True, perform_reallocation d i pid new_room_type j current_room)))"

text \<open>
  The room a name denotes, as \<open>DojoApp.print_room\<close> looks it up: offices first, then
  living spaces, ignoring case.
\<close>

definition find_room :: "dojo \<Rightarrow> string \<Rightarrow> room option" where
  "find_room d room_name =
     (case find (\<lambda>r. lower (name r) = lower room_name) (offices d) of
        Some r \<Rightarrow> Some r
      | None \<Rightarrow> find (\<lambda>r. lower (name r) = lower room_name) (living_spaces d))"

section \<open>Persistence (models/db)\<close>

subsection \<open>Rows (room\_models.py, person\_models.py)\<close>

text \<open>
  A row of \<open>rooms\<close> and a row of \<open>people\<close>. \<open>pdb_table\<close> is the table of the row's
  class (\<open>fellows\<close> for a \<open>FellowDB\<close>, which carries \<open>wants_accommodation\<close>, \<open>people\<close>
  otherwise). The columns \<open>office_id\<close> and \<open>living_space_id\<close> are declared as foreign
  keys to \<open>rooms.id\<close>; \<open>PNone\<close> is null.
\<close>

record room_db =
  rdb_id :: string
  rdb_name :: string
  rdb_type :: string
  rdb_capacity :: int

record person_db =
  pdb_id :: string
  pdb_name :: string
  pdb_type :: string
  pdb_table :: string
  pdb_wants_accommodation :: bool
  office_id :: pyval
  living_space_id :: pyval

definition OfficeDB :: "string \<Rightarrow> string \<Rightarrow> room_db" where
  "OfficeDB room_id nm =
     \<lparr>rdb_id = room_id, rdb_name = nm, rdb_type = lower ''office'', rdb_capacity = 6\<rparr>"

definition LivingSpaceDB :: "string \<Rightarrow> string \<Rightarrow> room_db" where
  "LivingSpaceDB room_id nm =
     \<lparr>rdb_id = room_id, rdb_name = nm, rdb_type = lower ''living_space'', rdb_capacity = 4\<rparr>"

definition StaffDB :: "string \<Rightarrow> string \<Rightarrow> person_db" where
  "StaffDB pid nm =
     \<lparr>pdb_id = pid, pdb_name = nm, pdb_type = upper ''STAFF'', pdb_table = ''people'',
      pdb_wants_accommodation = False, office_id = PNone, living_space_id = PNone\<rparr>"

definition FellowDB :: "string \<Rightarrow> string \<Rightarrow> bool \<Rightarrow> person_db" where
  "FellowDB pid nm wants =
     \<lparr>pdb_id = pid, pdb_name = nm, pdb_type = upper ''FELLOW'', pdb_table = ''fellows'',
      pdb_wants_accommodation = wants, office_id = PNone, living_space_id = PNone\<rparr>"

subsection \<open>The mapping (utils.py)\<close>

text \<open>
  \<open>to_db_room\<close>. The class of a room object and its \<open>room_type\<close> attribute agree (the
  constructors set both and nothing changes either), so the model reads \<open>room_type\<close>.
\<close>

definition to_db_room :: "room \<Rightarrow> py_error + room_db" where
  "to_db_room r =
     (let room_id = replace_space (lower (name r))
      in if room_type r = ''office'' then Inr (OfficeDB room_id (name r))
         else if room_type r = ''living_space'' then Inr (LivingSpaceDB room_id (name r))
         else if capacity r = 6 then Inr (OfficeDB room_id (name r))
         else if capacity r = 4 then Inr (LivingSpaceDB room_id (name r))
         else Inl ValueError)"

text \<open>\<open>to_db_person\<close>; every person object has a \<open>person_type\<close> attribute.\<close>

definition to_db_person :: "person \<Rightarrow> py_error + person_db" where
  "to_db_person p =
     (if person_type p \<noteq> ''STAFF'' \<and> person_type p \<noteq> ''FELLOW'' then Inl ValueError
      else
        let db_person =
              (if person_type p = ''STAFF'' then StaffDB (person_id p) (pname p)
               else FellowDB (person_id p) (pname p)
                      (case wants_accommodation p of None \<Rightarrow> False | Some w \<Rightarrow> w));
            db_person1 =
              (if truthy (office_allocated p)
               then db_person\<lparr>office_id := office_allocated p\<rparr> else db_person);
            db_person2 =
              (case living_space_allocated p of
                 None \<Rightarrow> db_person1
               | Some v \<Rightarrow> if truthy v then db_person1\<lparr>living_space_id := v\<rparr> else db_person1)
        in Inr db_person2)"

text \<open>
  \<open>to_domain_room\<close>: the room object it returns and the dojo afterwards, or the
  ValueError it raises. The association table behind \<open>db_room.occupants\<close> is never
  written by \<open>save_state\<close>, so the rows read have no occupants and the loop that restores
  them does nothing.
\<close>

definition to_domain_room :: "room_db \<Rightarrow> dojo \<Rightarrow> py_error + room \<times> dojo" where
  "to_domain_room db_room d =
     (let room_name = rdb_name db_room
      in case find (\<lambda>r. name r = room_name) (offices d) of
           Some r \<Rightarrow> Inr (r, d)
         | None \<Rightarrow>
             (case find (\<lambda>r. name r = room_name) (living_spaces d) of
                Some r \<Rightarrow> Inr (r, d)
              | None \<Rightarrow>
                  if rdb_type db_room = ''office''
                    then Inr (Office room_name, d\<lparr>offices := offices d @ [Office room_name]\<rparr>)
                  else if rdb_type db_room = ''living_space'' \<or> rdb_type db_room = ''living space''
                    then Inr (LivingSpace room_name,
                              d\<lparr>living_spaces := living_spaces d @ [LivingSpace room_name]\<rparr>)
                  else if rdb_capacity db_room = 6
                    then Inr (Office room_name, d\<lparr>offices := offices d @ [Office room_name]\<rparr>)
                  else if rdb_capacity db_room = 4
                    then Inr (LivingSpace room_name,
                              d\<lparr>living_spaces := living_spaces d @ [LivingSpace room_name]\<rparr>)
                  else Inl ValueError))"

text \<open>
  \<open>to_domain_person\<close>: the index of the new person in \<open>people\<close> and the dojo afterwards.
  The id the constructor draws is overwritten by the row's id.
\<close>

definition to_domain_person :: "person_db \<Rightarrow> dojo \<Rightarrow> nat \<times> dojo" where
  "to_domain_person db_person d =
     (let p = (if pdb_table db_person = ''fellows''
                 then Fellow (pdb_id db_person) (pdb_name db_person)
                        (PBool (pdb_wants_accommodation db_person))
               else if pdb_type db_person = ''STAFF''
                 then Staff (pdb_id db_person) (pdb_name db_person)
               else Fellow (pdb_id db_person) (pdb_name db_person) (PBool False));
          p1 = (if truthy (office_id db_person)
                then p\<lparr>office_allocated := office_id db_person\<rparr> else p);
          p2 = (if truthy (living_space_id db_person)
                then p1\<lparr>living_space_allocated := Some (living_space_id db_person)\<rparr> else p1)
      in (length (people d), d\<lparr>people := people d @ [p2]\<rparr>))"

subsection \<open>The service (service.py)\<close>

text \<open>The rows \<open>save_state\<close> adds to its session: the rooms, offices first, then the people.\<close>

fun collect :: "('a \<Rightarrow> py_error + 'b) \<Rightarrow> 'a list \<Rightarrow> py_error + 'b list" where
  "collect f [] = Inr []"
| "collect f (x # xs) =
     (case f x of
        Inl e \<Rightarrow> Inl e
      | Inr y \<Rightarrow> (case collect f xs of Inl e \<Rightarrow> Inl e | Inr ys \<Rightarrow> Inr (y # ys)))"

definition save_rows :: "dojo \<Rightarrow> py_error + room_db list \<times> person_db list" where
  "save_rows d =
     (case collect to_db_room (offices d @ living_spaces d) of
        Inl e \<Rightarrow> Inl e
      | Inr rooms \<Rightarrow>
          (case collect to_db_person (people d) of
             Inl e \<Rightarrow> Inl e
           | Inr persons \<Rightarrow> Inr (rooms, persons)))"

text \<open>
  What \<open>load_state\<close> sees of the file at its path: whether the path exists and is a
  regular file, its bytes (\<open>None\<close> when opening it raises IOError or OSError), and what the
  two queries give (the rows, or the SQLAlchemyError the query raises, as it does on a file
  that has the header and no table \<open>rooms\<close>).
\<close>

record db_file =
  path_exists :: bool
  path_isfile :: bool
  file_bytes :: "string option"
  all_rooms :: "py_error + room_db list"
  all_people :: "py_error + person_db list"

definition sqlite_header :: string where
  "sqlite_header = ''SQLite format 3'' @ [CHR 0x00]"

definition is_valid_sqlite_db :: "db_file \<Rightarrow> bool" where
  "is_valid_sqlite_db f =
     (if \<not> path_isfile f then False
      else (case file_bytes f of
              None \<Rightarrow> False
            | Some bs \<Rightarrow> take (length sqlite_header) bs = sqlite_header))"

text \<open>
  The loop over the room rows: the exception that ended it, if one did, and the dojo at
  that moment.
\<close>

fun load_rooms :: "room_db list \<Rightarrow> string list \<Rightarrow> dojo \<Rightarrow> py_error option \<times> dojo" where
  "load_rooms [] loaded_rooms d = (None, d)"
| "load_rooms (room_db # rest) loaded_rooms d =
     (if rdb_name room_db \<in> set loaded_rooms then load_rooms rest loaded_rooms d
      else
        (case to_domain_room room_db d of
           Inl e \<Rightarrow> (Some e, d)
         | Inr (r, d1) \<Rightarrow>
             let d2 =
               (if room_type r = ''office''
                then (if list_ex (\<lambda>r'. name r' = name r) (offices d1) then d1
                      else d1\<lparr>offices := offices d1 @ [r]\<rparr>)
                else (if list_ex (\<lambda>r'. name r' = name r) (living_spaces d1) then d1
                      else d1\<lparr>living_spaces := living_spaces d1 @ [r]\<rparr>))
             in load_rooms rest (rdb_name room_db # loaded_rooms) d2))"

fun load_people :: "person_db list \<Rightarrow> dojo \<Rightarrow> dojo" where
  "load_people [] d = d"
| "load_people (person_db # rest) d =
     (if list_ex (\<lambda>p. person_id p = pdb_id person_db) (people d) then load_people rest d
      else
        let (i, d1) = to_domain_person person_db d;
            d2 = (if person_type (people d1 ! i) = ''FELLOW''
                  then (if i \<in> set (fellows d1) then d1 else d1\<lparr>fellows := fellows d1 @ [i]\<rparr>)
                  else (if i \<in> set (staff d1) then d1 else d1\<lparr>staff := staff d1 @ [i]\<rparr>))
        in load_people rest d2)"

text \<open>\<open>DatabaseService.load_state\<close>: the returned flag and the caller's dojo afterwards.\<close>

definition load_state :: "dojo \<Rightarrow> db_file \<Rightarrow> bool \<times> dojo" where
  "load_state d f =
     (if \<not> path_exists f then (False, d)
      else if \<not> is_valid_sqlite_db f then (False, d)
      else
        let d0 = d\<lparr>offices := [], living_spaces := [], people := [], staff := [], fellows := []\<rparr>
        in (case all_rooms f of
              Inl e \<Rightarrow> (False, d0)
            | Inr room_dbs \<Rightarrow>
                (case load_rooms room_dbs [] d0 of
                   (Some e, d1) \<Rightarrow> (False, d1)
                 | (None, d1) \<Rightarrow>
                     (case all_people f of
                        Inl e \<Rightarrow> (False, d1)
                      | Inr person_dbs \<Rightarrow> (True, load_people person_dbs d1)))))"

text \<open>
  \<open>DojoApp.load_state\<close>: after its own two checks the application replaces its dojo by a
  new one and loads into that.
\<close>

definition app_load_state :: "dojo \<Rightarrow> db_file \<Rightarrow> bool \<times> dojo" where
  "app_load_state d f =
     (if \<not> path_exists f then (False, d)
      else if \<not> is_valid_sqlite_db f then (False, d)
      else load_state Dojo f)"

subsection \<open>Sequences of operations\<close>

text \<open>
  A call of one of the three operations with its arguments (for \<open>add_person\<close> also the
  id drawn and the two random picks), the dojo after such a call, whether it returned or
  raised, and the dojo after a sequence of calls.
\<close>

datatype operation =
    CreateRoom string names_arg
  | AddPerson string nat nat string string pyval
  | Reallocate string string

fun exec :: "dojo \<Rightarrow> operation \<Rightarrow> dojo" where
  "exec d (CreateRoom rt room_names) = snd (create_room d rt room_names)"
| "exec d (AddPerson uuid k1 k2 nm ptype wants) = snd (add_person d uuid k1 k2 nm ptype wants)"
| "exec d (Reallocate pid new_room_name) = snd (reallocate_person d pid new_room_name)"

fun run :: "dojo \<Rightarrow> operation list \<Rightarrow> dojo" where
  "run d [] = d"
| "run d (op # ops) = run (exec d op) ops"

section \<open>Notions used to state the properties\<close>

text \<open>
  What the \<open>try\<close> block of \<open>reallocate_person\<close> does to the rooms of the target's kind:
  the id leaves the current room, if there is one, and joins the room at index \<open>j\<close>.
\<close>

definition vacate :: "string \<Rightarrow> room \<Rightarrow> room" where
  "vacate pid r = r\<lparr>occupants := remove1 pid (occupants r)\<rparr>"

definition occupy :: "string \<Rightarrow> room \<Rightarrow> room" where
  "occupy pid r = r\<lparr>occupants := occupants r @ [pid]\<rparr>"

definition moved_rooms :: "room list \<Rightarrow> string \<Rightarrow> nat \<Rightarrow> nat option \<Rightarrow> room list" where
  "moved_rooms rs pid j current_room =
     (let rs1 = (case current_room of None \<Rightarrow> rs | Some c \<Rightarrow> rs[c := vacate pid (rs ! c)])
      in rs1[j := occupy pid (rs1 ! j)])"

text \<open>
  A room has the capacity \<open>cap\<close> and no more occupants than that; every office does so
  with 6 and every living space with 4.
\<close>

definition room_ok :: "int \<Rightarrow> room \<Rightarrow> bool" where
  "room_ok cap r = (capacity r = cap \<and> int (length (occupants r)) \<le> capacity r)"

definition capacity_respected :: "dojo \<Rightarrow> bool" where
  "capacity_respected d =
     (list_all (room_ok 6) (offices d) \<and> list_all (room_ok 4) (living_spaces d))"

text \<open>
  Bidirectional consistency: for every person and every room, the person's id is among
  the room's occupants exactly when the person's assignment of the room's kind is that
  room's name.
\<close>

definition consistent :: "dojo \<Rightarrow> bool" where
  "consistent d =
     list_all (\<lambda>p.
        list_all (\<lambda>r. (person_id p \<in> set (occupants r)) = (office_allocated p = PStr (name r)))
          (offices d)
        \<and> list_all (\<lambda>r. (person_id p \<in> set (occupants r))
                          = (living_space_allocated p = Some (PStr (name r))))
            (living_spaces d))
       (people d)"





section \<open>Lists and searches\<close>

lemma find_idx_SomeD:
  "find_idx P xs = Some i \<Longrightarrow> i < length xs \<and> P (xs ! i) \<and> (\<forall>j<i. \<not> P (xs ! j))"
proof (induction xs arbitrary: i)
  case Nil
  then show ?case by simp
next
  case (Cons x xs)
  show ?case
  proof (cases "P x")
    case True
    with Cons.prems show ?thesis by simp
  next
    case False
    with Cons.prems obtain k where k: "find_idx P xs = Some k" "i = Suc k"
      by auto
    from Cons.IH [OF k(1)] False k(2) show ?thesis
      by (auto simp: nth_Cons split: nat.splits)
  qed
qed


lemma list_all_update:
  assumes "list_all P xs" and "i < length xs \<Longrightarrow> P y"
  shows "list_all P (xs[i := y])"
proof (cases "i < length xs")
  case True
  have "set (xs[i := y]) \<subseteq> insert y (set xs)"
    by (rule set_update_subset_insert)
  with assms True show ?thesis
    by (auto simp: list_all_iff)
next
  case False
  then have "xs[i := y] = xs" by (simp add: list_update_beyond)
  with assms(1) show ?thesis by simp
qed










section \<open>The effect of a reallocation on the rooms\<close>

lemma perform_offices:
  "offices (perform_reallocation d i pid kind j cur) =
     (if kind = ''office'' then moved_rooms (offices d) pid j cur else offices d)"
  by (simp add: perform_reallocation_def rooms_to_check_def moved_rooms_def vacate_def occupy_def
      Let_def split: option.splits prod.splits)

lemma perform_living_spaces:
  "living_spaces (perform_reallocation d i pid kind j cur) =
     (if kind = ''office'' then living_spaces d else moved_rooms (living_spaces d) pid j cur)"
  by (simp add: perform_reallocation_def rooms_to_check_def moved_rooms_def vacate_def occupy_def
      Let_def split: option.splits prod.splits)

lemma room_ok_vacate: "room_ok cap r \<Longrightarrow> room_ok cap (vacate pid r)"
  by (auto simp: room_ok_def vacate_def length_remove1)

lemma moved_rooms_ok:
  assumes "list_all (room_ok cap) rs" and "j < length rs" and "\<not> is_full (rs ! j)"
  shows "list_all (room_ok cap) (moved_rooms rs pid j cur)"
proof -
  define rs1 where "rs1 = (case cur of None \<Rightarrow> rs | Some c \<Rightarrow> rs[c := vacate pid (rs ! c)])"
  have len: "length rs1 = length rs"
    by (simp add: rs1_def split: option.splits)
  have all1: "list_all (room_ok cap) rs1"
  proof (cases cur)
    case None
    with assms(1) show ?thesis by (simp add: rs1_def)
  next
    case (Some c)
    have "list_all (room_ok cap) (rs[c := vacate pid (rs ! c)])"
      using assms(1) by (rule list_all_update) (use assms(1) in \<open>simp add: list_all_length room_ok_vacate\<close>)
    with Some show ?thesis by (simp add: rs1_def)
  qed
  have "int (length (occupants (rs1 ! j))) \<le> int (length (occupants (rs ! j)))"
  proof (cases cur)
    case None
    then show ?thesis by (simp add: rs1_def)
  next
    case (Some c)
    show ?thesis
    proof (cases "c = j")
      case True
      with Some assms(2) show ?thesis
        by (simp add: rs1_def vacate_def length_remove1)
    next
      case False
      with Some show ?thesis by (simp add: rs1_def)
    qed
  qed
  with assms(3) have nf: "\<not> is_full (rs1 ! j)"
    using assms(1,2) all1 len
    by (auto simp: is_full_def room_ok_def list_all_length)
  have "room_ok cap (rs1 ! j)"
    using all1 assms(2) len by (simp add: list_all_length)
  with nf have "room_ok cap (occupy pid (rs1 ! j))"
    by (auto simp: room_ok_def occupy_def is_full_def)
  with all1 have "list_all (room_ok cap) (rs1[j := occupy pid (rs1 ! j)])"
    by (rule list_all_update)
  then show ?thesis
    by (simp add: moved_rooms_def rs1_def Let_def)
qed



lemma length_moved_rooms [simp]: "length (moved_rooms rs pid j cur) = length rs"
  by (simp add: moved_rooms_def Let_def split: option.splits)

lemma map_update_same:
  "f y = f (xs ! i) \<Longrightarrow> map f (xs[i := y]) = map f xs"
proof (induction xs arbitrary: i)
  case Nil
  then show ?case by simp
next
  case (Cons x xs)
  then show ?case by (cases i) simp_all
qed



lemma capacity_moved_rooms:
  "map capacity (moved_rooms rs pid j cur) = map capacity rs"
  by (cases cur) (simp_all add: moved_rooms_def Let_def map_update_same vacate_def occupy_def)


section \<open>Capacity\<close>

lemma available_nth:
  assumes "available rs \<noteq> []"
  shows "available rs ! (k mod length (available rs)) < length rs
         \<and> \<not> is_full (rs ! (available rs ! (k mod length (available rs))))"
proof -
  from assms have "k mod length (available rs) < length (available rs)"
    by simp
  then have "available rs ! (k mod length (available rs)) \<in> set (available rs)"
    by (rule nth_mem)
  then show ?thesis
    by (simp add: available_def)
qed

lemma add_occupant_ok: "room_ok cap r \<Longrightarrow> room_ok cap (snd (add_occupant r x))"
  by (auto simp: add_occupant_def room_ok_def is_full_def split: option.splits)

lemma allocate_office_capacity:
  assumes "capacity_respected d"
  shows "capacity_respected (snd (allocate_office d i k))"
proof (cases "available (offices d) = []")
  case True
  with assms show ?thesis by (simp add: allocate_office_def)
next
  case False
  define j where "j = available (offices d) ! (k mod length (available (offices d)))"
  from available_nth [OF False, of k] have j: "j < length (offices d)"
    by (simp add: j_def)
  from assms j have "room_ok 6 (offices d ! j)"
    by (simp add: capacity_respected_def list_all_length)
  then have "room_ok 6 (snd (add_occupant (offices d ! j) (Some (person_id (people d ! i)))))"
    by (rule add_occupant_ok)
  with assms have "list_all (room_ok 6)
      ((offices d)[j := snd (add_occupant (offices d ! j) (Some (person_id (people d ! i))))])"
    by (intro list_all_update) (simp_all add: capacity_respected_def)
  with False assms show ?thesis
    by (simp add: allocate_office_def Let_def j_def capacity_respected_def)
qed

lemma allocate_living_space_capacity:
  assumes "capacity_respected d"
  shows "capacity_respected (snd (allocate_living_space d i k))"
proof (cases "available (living_spaces d) = []")
  case True
  with assms show ?thesis by (simp add: allocate_living_space_def)
next
  case False
  define j where "j = available (living_spaces d) ! (k mod length (available (living_spaces d)))"
  from available_nth [OF False, of k] have j: "j < length (living_spaces d)"
    by (simp add: j_def)
  from assms j have "room_ok 4 (living_spaces d ! j)"
    by (simp add: capacity_respected_def list_all_length)
  then have "room_ok 4 (snd (add_occupant (living_spaces d ! j) (Some (person_id (people d ! i)))))"
    by (rule add_occupant_ok)
  with assms have "list_all (room_ok 4)
      ((living_spaces d)[j := snd (add_occupant (living_spaces d ! j) (Some (person_id (people d ! i))))])"
    by (intro list_all_update) (simp_all add: capacity_respected_def)
  with False assms show ?thesis
    by (simp add: allocate_living_space_def Let_def j_def capacity_respected_def)
qed

lemma add_person_to_lists_capacity:
  "capacity_respected d \<Longrightarrow> capacity_respected (add_person_to_lists d p)"
  by (simp add: add_person_to_lists_def capacity_respected_def Let_def)

lemma add_person_capacity:
  assumes "capacity_respected d"
  shows "capacity_respected (snd (add_person d uuid k1 k2 nm ptype wants))"
  using assms
  by (simp add: add_person_def Let_def add_person_to_lists_capacity
      allocate_office_capacity allocate_living_space_capacity)

lemma create_room_loop_capacity:
  "capacity_respected d \<Longrightarrow> capacity_respected (snd (create_room_loop rt nms c d))"
proof (induction nms arbitrary: c d)
  case Nil
  then show ?case by simp
next
  case (Cons nm nms)
  have o: "capacity_respected (d\<lparr>offices := offices d @ [Office nm]\<rparr>)"
    using Cons.prems by (simp add: capacity_respected_def room_ok_def Office_def)
  have l: "capacity_respected (d\<lparr>living_spaces := living_spaces d @ [LivingSpace nm]\<rparr>)"
    using Cons.prems by (simp add: capacity_respected_def room_ok_def LivingSpace_def)
  from Cons.IH [OF o] Cons.IH [OF l] Cons.IH [OF Cons.prems] show ?case
    by (cases "rt = ''office''") simp_all
qed

lemma create_room_capacity:
  "capacity_respected d \<Longrightarrow> capacity_respected (snd (create_room d rt room_names))"
  by (simp add: create_room_def create_room_loop_capacity)

lemma find_new_roomD:
  assumes "find_new_room d p n = Some (kind, j)"
  shows "(kind = ''office'' \<or> kind = ''living_space'')
         \<and> j < length (rooms_to_check d kind)
         \<and> lower (name (rooms_to_check d kind ! j)) = lower n
         \<and> (kind = ''living_space'' \<longrightarrow> person_type p = ''FELLOW'' \<and> wants_accommodation p = Some True)"
  using assms
  by (auto simp: find_new_room_def rooms_to_check_def split: option.splits if_splits
      dest: find_idx_SomeD)

lemma reallocate_person_capacity:
  assumes "capacity_respected d"
  shows "capacity_respected (snd (reallocate_person d pid n))"
proof (cases "fst (reallocate_person d pid n)")
  case False
  then have "snd (reallocate_person d pid n) = d"
    by (auto simp: reallocate_person_def Let_def split: option.splits if_splits prod.splits)
  with assms show ?thesis by simp
next
  case True
  then obtain i kind j where
    f: "find_new_room d (people d ! i) n = Some (kind, j)" and
    nf: "\<not> is_full (rooms_to_check d kind ! j)" and
    r: "snd (reallocate_person d pid n) =
          perform_reallocation d i pid kind j
            (find_idx (\<lambda>r. pid \<in> set (occupants r)) (rooms_to_check d kind))"
    by (auto simp: reallocate_person_def Let_def is_full_def split: option.splits if_splits prod.splits)
  from find_new_roomD [OF f] have j: "j < length (rooms_to_check d kind)"
    by simp
  show ?thesis
  proof (cases "kind = ''office''")
    case True
    with j nf assms have "list_all (room_ok 6) (moved_rooms (offices d) pid j
        (find_idx (\<lambda>r. pid \<in> set (occupants r)) (offices d)))"
      by (intro moved_rooms_ok) (simp_all add: rooms_to_check_def capacity_respected_def)
    with True assms show ?thesis
      by (simp add: r capacity_respected_def perform_offices perform_living_spaces rooms_to_check_def)
  next
    case False
    with j nf assms have "list_all (room_ok 4) (moved_rooms (living_spaces d) pid j
        (find_idx (\<lambda>r. pid \<in> set (occupants r)) (living_spaces d)))"
      by (intro moved_rooms_ok) (simp_all add: rooms_to_check_def capacity_respected_def)
    with False assms show ?thesis
      by (simp add: r capacity_respected_def perform_offices perform_living_spaces rooms_to_check_def)
  qed
qed

lemma exec_capacity: "capacity_respected d \<Longrightarrow> capacity_respected (exec d op)"
  by (cases op) (simp_all add: create_room_capacity add_person_capacity reallocate_person_capacity)

lemma run_capacity: "capacity_respected d \<Longrightarrow> capacity_respected (run d ops)"
  by (induction ops arbitrary: d) (simp_all add: exec_capacity)

text \<open>
  C1. For every sequence of \<open>create_room\<close>, \<open>add_person\<close> and \<open>reallocate_person\<close>
  calls that starts from an empty dojo, every office has capacity 6 and every living space
  capacity 4, and no room has more occupants than its capacity. The sequence is arbitrary,
  so this holds after each call of it.
\<close>

theorem capacity_never_exceeded:
  "capacity_respected (run Dojo ops)"
  by (rule run_capacity) (simp add: capacity_respected_def Dojo_def)

theorem capacity_never_exceeded_witness:
  "capacity_respected
     (run Dojo
        [CreateRoom ''office'' (OneName ''Blue''),
         AddPerson ''00000001'' 0 0 ''Ann'' ''STAFF'' (PStr ''N''),
         AddPerson ''00000002'' 0 0 ''Bo'' ''STAFF'' (PStr ''N''),
         AddPerson ''00000003'' 0 0 ''Cy'' ''STAFF'' (PStr ''N''),
         AddPerson ''00000004'' 0 0 ''Di'' ''STAFF'' (PStr ''N''),
         AddPerson ''00000005'' 0 0 ''Ed'' ''STAFF'' (PStr ''N''),
         AddPerson ''00000006'' 0 0 ''Flo'' ''STAFF'' (PStr ''N''),
         AddPerson ''00000007'' 0 0 ''Gus'' ''STAFF'' (PStr ''N'')])
   \<and> map (\<lambda>r. length (occupants r))
        (offices
           (run Dojo
              [CreateRoom ''office'' (OneName ''Blue''),
               AddPerson ''00000001'' 0 0 ''Ann'' ''STAFF'' (PStr ''N''),
               AddPerson ''00000002'' 0 0 ''Bo'' ''STAFF'' (PStr ''N''),
               AddPerson ''00000003'' 0 0 ''Cy'' ''STAFF'' (PStr ''N''),
               AddPerson ''00000004'' 0 0 ''Di'' ''STAFF'' (PStr ''N''),
               AddPerson ''00000005'' 0 0 ''Ed'' ''STAFF'' (PStr ''N''),
               AddPerson ''00000006'' 0 0 ''Flo'' ''STAFF'' (PStr ''N''),
               AddPerson ''00000007'' 0 0 ''Gus'' ''STAFF'' (PStr ''N'')])) = [6]"
proof -
  define ops where "ops =
        [CreateRoom ''office'' (OneName ''Blue''),
         AddPerson ''00000001'' 0 0 ''Ann'' ''STAFF'' (PStr ''N''),
         AddPerson ''00000002'' 0 0 ''Bo'' ''STAFF'' (PStr ''N''),
         AddPerson ''00000003'' 0 0 ''Cy'' ''STAFF'' (PStr ''N''),
         AddPerson ''00000004'' 0 0 ''Di'' ''STAFF'' (PStr ''N''),
         AddPerson ''00000005'' 0 0 ''Ed'' ''STAFF'' (PStr ''N''),
         AddPerson ''00000006'' 0 0 ''Flo'' ''STAFF'' (PStr ''N''),
         AddPerson ''00000007'' 0 0 ''Gus'' ''STAFF'' (PStr ''N'')]"
  have "map (\<lambda>r. length (occupants r)) (offices (run Dojo ops)) = [6]"
    unfolding ops_def by code_simp
  with capacity_never_exceeded [of ops] show ?thesis
    unfolding ops_def by simp
qed

section \<open>Failures of the three operations\<close>


lemma create_room_loop_True:
  "fst (create_room_loop rt nms True d)"
  by (induction nms arbitrary: d) auto

lemma create_room_loop_fails_unchanged:
  "create_room_loop rt nms c d = (False, d') \<Longrightarrow> d' = d"
proof (induction nms arbitrary: d)
  case Nil
  then show ?case by simp
next
  case (Cons nm nms)
  have "create_room_loop rt nms True d2 \<noteq> (False, d')" for d2
    using create_room_loop_True [of rt nms d2] by auto
  with Cons show ?case
    by (auto split: if_splits)
qed

lemma create_room_fails_unchanged:
  "create_room d rt room_names = (False, d') \<Longrightarrow> d' = d"
  by (auto simp: create_room_def split: if_splits dest: create_room_loop_fails_unchanged)

lemma add_person_False_unchanged:
  "add_person d uuid k1 k2 nm ptype wants = (Inr False, d') \<Longrightarrow> d' = d"
  by (auto simp: add_person_def Let_def split: if_splits)

text \<open>
  C6. Every failure of \<open>create_room\<close>, \<open>add_person\<close> or \<open>reallocate_person\<close> is an
  explicit False, never an exception, and leaves the dojo unchanged. The code fails this
  for a name without a word: \<open>add_person\<close> on the empty dojo with the name \<open>" "\<close> leaves
  by the exception NameError, and the fellow is registered in \<open>people\<close> and \<open>fellows\<close>.
\<close>

theorem add_person_blank_name_raises:
  "add_person Dojo ''1a2b3c4d'' 0 0 '' '' ''FELLOW'' (PStr ''N'') =
     (Inl NameError,
      \<lparr>offices = [], living_spaces = [],
       people = [\<lparr>pname = '' '', person_id = ''1a2b3c4d'', person_type = ''FELLOW'',
                  wants_accommodation = Some False, office_allocated = PNone,
                  living_space_allocated = Some PNone\<rparr>],
       staff = [], fellows = [0]\<rparr>)"
  by code_simp

text \<open>The same call through \<open>DojoApp.add_person\<close>.\<close>

lemma app_add_person_blank_name_raises:
  "app_add_person Dojo ''1a2b3c4d'' 0 0 '' '' ''fellow'' ''n'' =
     (Inl NameError,
      \<lparr>offices = [], living_spaces = [],
       people = [\<lparr>pname = '' '', person_id = ''1a2b3c4d'', person_type = ''FELLOW'',
                  wants_accommodation = Some False, office_allocated = PNone,
                  living_space_allocated = Some PNone\<rparr>],
       staff = [], fellows = [0]\<rparr>)"
  by code_simp

section \<open>Reallocation\<close>



text \<open>
  C2. A successful \<open>reallocate_person\<close> removes the id from the current room, adds it to
  the target room and sets the person's assignment of that kind to the target room. The
  code moves the id, but the assignment it records is the flag \<open>True\<close>, not the room:
  John Doe, in the office Blue, is moved to the office Red.
\<close>

theorem reallocate_person_records_flag:
  "reallocate_person
     (run Dojo [CreateRoom ''office'' (NameList [''Blue'', ''Red'']),
                AddPerson ''1a2b3c4d'' 0 0 ''John Doe'' ''STAFF'' (PStr ''N'')])
     ''1a2b3c4d'' ''Red'' =
   (True,
    \<lparr>offices = [\<lparr>name = ''Blue'', room_type = ''office'', capacity = 6, occupants = []\<rparr>,
                \<lparr>name = ''Red'', room_type = ''office'', capacity = 6,
                  occupants = [''1a2b3c4d'']\<rparr>],
     living_spaces = [],
     people = [\<lparr>pname = ''John Doe'', person_id = ''1a2b3c4d'', person_type = ''STAFF'',
                wants_accommodation = None, office_allocated = PBool True,
                living_space_allocated = None\<rparr>],
     staff = [0], fellows = []\<rparr>)"
  by code_simp

text \<open>
  C5. After every operation the dojo is consistent. The code fails this after a
  reallocation: the dojo is consistent after John Doe is added and no longer after he is
  moved to Red, where he is an occupant of Red and his recorded office is \<open>True\<close>.
\<close>

theorem reallocation_breaks_consistency:
  "consistent (run Dojo [CreateRoom ''office'' (NameList [''Blue'', ''Red'']),
                         AddPerson ''1a2b3c4d'' 0 0 ''John Doe'' ''STAFF'' (PStr ''N'')])
   \<and> \<not> consistent (run Dojo [CreateRoom ''office'' (NameList [''Blue'', ''Red'']),
                         AddPerson ''1a2b3c4d'' 0 0 ''John Doe'' ''STAFF'' (PStr ''N''),
                         Reallocate ''1a2b3c4d'' ''Red''])"
  by code_simp

text \<open>
  It fails after a load as well: the rooms come back without occupants, the people with
  their assignments.
\<close>

lemma load_state_loses_occupants:
  "load_state Dojo
     \<lparr>path_exists = True, path_isfile = True, file_bytes = Some sqlite_header,
      all_rooms = Inr [\<lparr>rdb_id = ''blue'', rdb_name = ''Blue'', rdb_type = ''office'',
                        rdb_capacity = 6\<rparr>],
      all_people = Inr [\<lparr>pdb_id = ''1a2b3c4d'', pdb_name = ''John Doe'', pdb_type = ''STAFF'',
                         pdb_table = ''people'', pdb_wants_accommodation = False,
                         office_id = PStr ''Blue'', living_space_id = PNone\<rparr>]\<rparr>
   = (True,
      \<lparr>offices = [\<lparr>name = ''Blue'', room_type = ''office'', capacity = 6, occupants = []\<rparr>],
       living_spaces = [],
       people = [\<lparr>pname = ''John Doe'', person_id = ''1a2b3c4d'', person_type = ''STAFF'',
                  wants_accommodation = None, office_allocated = PStr ''Blue'',
                  living_space_allocated = None\<rparr>],
       staff = [0], fellows = []\<rparr>)"
  by code_simp

section \<open>Persistence\<close>

lemma to_db_room_id:
  "to_db_room r = Inr row \<Longrightarrow> rdb_id row = replace_space (lower (name r))"
  by (auto simp: to_db_room_def OfficeDB_def LivingSpaceDB_def Let_def split: if_splits)

text \<open>
  C4. On a save each room gives a row whose id is the slug of its name, and each person a
  row whose foreign keys are null or the slug of the assigned room. The rooms are so mapped
  (\<open>to_db_room_id\<close>); the foreign key of a person is the recorded assignment itself, the
  room's name: the office Blue Room has the id \<open>blue_room\<close> and its occupant the
  \<open>office_id\<close> \<open>Blue Room\<close>.
\<close>

theorem save_rows_foreign_key_not_slug:
  "save_rows (run Dojo [CreateRoom ''office'' (OneName ''Blue Room''),
                        AddPerson ''1a2b3c4d'' 0 0 ''John Doe'' ''STAFF'' (PStr ''N'')]) =
   Inr ([\<lparr>rdb_id = ''blue_room'', rdb_name = ''Blue Room'', rdb_type = ''office'',
           rdb_capacity = 6\<rparr>],
        [\<lparr>pdb_id = ''1a2b3c4d'', pdb_name = ''John Doe'', pdb_type = ''STAFF'',
           pdb_table = ''people'', pdb_wants_accommodation = False,
           office_id = PStr ''Blue Room'', living_space_id = PNone\<rparr>])"
  by code_simp

text \<open>
  C3, as stated: whenever \<open>load_state\<close> returns False the caller's dojo is unmodified.
  It is not: on a file that has the SQLite header and whose first query raises, the dojo
  has been emptied by the time \<open>load_state\<close> returns False.
\<close>

theorem load_state_failure_clears_dojo:
  "load_state (run Dojo [CreateRoom ''office'' (OneName ''Blue'')])
     \<lparr>path_exists = True, path_isfile = True,
      file_bytes = Some (sqlite_header @ ''garbage''),
      all_rooms = Inl SQLAlchemyError, all_people = Inl SQLAlchemyError\<rparr>
   = (False, Dojo)
   \<and> run Dojo [CreateRoom ''office'' (OneName ''Blue'')] \<noteq> Dojo"
  by code_simp

text \<open>
  C3, amended: when the path does not exist or the file does not start with the SQLite
  header, \<open>load_state\<close> returns False and the caller's dojo is unmodified.
\<close>

theorem load_state_rejected_file_unchanged:
  assumes "\<not> path_exists f \<or> \<not> is_valid_sqlite_db f"
  shows "load_state d f = (False, d)"
  using assms by (auto simp: load_state_def)

theorem load_state_rejected_file_unchanged_witness:
  "\<not> is_valid_sqlite_db
       \<lparr>path_exists = True, path_isfile = True,
        file_bytes = Some ''not a valid sqlite database'',
        all_rooms = Inl SQLAlchemyError, all_people = Inl SQLAlchemyError\<rparr>
   \<and> load_state (run Dojo [CreateRoom ''office'' (OneName ''Blue'')])
       \<lparr>path_exists = True, path_isfile = True,
        file_bytes = Some ''not a valid sqlite database'',
        all_rooms = Inl SQLAlchemyError, all_people = Inl SQLAlchemyError\<rparr>
     = (False, run Dojo [CreateRoom ''office'' (OneName ''Blue'')])"
proof -
  have h: "\<not> is_valid_sqlite_db
       \<lparr>path_exists = True, path_isfile = True,
        file_bytes = Some ''not a valid sqlite database'',
        all_rooms = Inl SQLAlchemyError, all_people = Inl SQLAlchemyError\<rparr>"
    by code_simp
  from load_state_rejected_file_unchanged [OF disjI2 [OF h]] h show ?thesis
    by simp
qed

text \<open>The application behaves alike: it swaps in a new dojo before it loads.\<close>

lemma app_load_state_rejected_file_unchanged:
  assumes "\<not> path_exists f \<or> \<not> is_valid_sqlite_db f"
  shows "app_load_state d f = (False, d)"
  using assms by (auto simp: app_load_state_def)

lemma app_load_state_failure_clears_dojo:
  "app_load_state (run Dojo [CreateRoom ''office'' (OneName ''Blue'')])
     \<lparr>path_exists = True, path_isfile = True,
      file_bytes = Some (sqlite_header @ ''garbage''),
      all_rooms = Inl SQLAlchemyError, all_people = Inl SQLAlchemyError\<rparr>
   = (False, Dojo)"
  by code_simp

section \<open>Well-formed dojos\<close>








lemma name_add_occupant [simp]: "name (snd (add_occupant r x)) = name r"
  by (simp add: add_occupant_def split: option.splits)











lemma perform_frame:
  "staff (perform_reallocation d i pid kind j cur) = staff d"
  "fellows (perform_reallocation d i pid kind j cur) = fellows d"
  by (simp_all add: perform_reallocation_def Let_def split: prod.splits)






section \<open>Staff and living spaces\<close>

text \<open>
  A staff member never has a living-space assignment, whatever ids are drawn.
\<close>

lemma room_type_add_occupant [simp]: "room_type (snd (add_occupant r x)) = room_type r"
  by (simp add: add_occupant_def split: option.splits)












section \<open>A move and its reverse\<close>













section \<open>Properties of a room\<close>

text \<open>
  C10. For every room with available space, \<open>add_occupant\<close> called with an empty or
  null person id returns false and leaves the room, and so its occupants, as it was.
\<close>

theorem add_occupant_empty_id:
  assumes "\<not> is_full r" and "pid = None \<or> pid = Some []"
  shows "add_occupant r pid = (False, r)"
  using assms by (auto simp: add_occupant_def)

theorem add_occupant_empty_id_witness:
  "\<not> is_full (Office ''Blue'')
   \<and> add_occupant (Office ''Blue'') None = (False, Office ''Blue'')
   \<and> add_occupant (Office ''Blue'') (Some []) = (False, Office ''Blue'')"
proof -
  have nf: "\<not> is_full (Office ''Blue'')"
    by (simp add: is_full_def Office_def)
  show ?thesis
    using nf add_occupant_empty_id [OF nf, of None] add_occupant_empty_id [OF nf, of "Some []"]
    by simp
qed

end
